theory Spec2Isabelle
  imports Main "HOL-Library.Multiset"
begin

unbundle bit_operations_syntax

section \<open>JavaScript values\<close>

text \<open>
  The extension reads a loosely typed object graph. A property of a JavaScript object is
  either absent (\<open>undefined\<close>), \<open>null\<close>, or carries a value; the three cases are kept apart
  because the code tells them apart (\<open>!== undefined\<close>, \<open>|| null\<close>, \<open>JSON.stringify\<close>).
  Properties whose values are strings, numbers or booleans in the source graph are typed so.
\<close>

datatype 'a js = Undefined | Null | Has 'a

text \<open>Truthiness, as \<open>if (x)\<close>, \<open>x && ...\<close> and \<open>x || ...\<close> test it.\<close>

fun truthy_str :: "string js \<Rightarrow> bool" where
  "truthy_str (Has s) = (s \<noteq> [])"
| "truthy_str _ = False"

fun truthy_num :: "int js \<Rightarrow> bool" where
  "truthy_num (Has n) = (n \<noteq> 0)"
| "truthy_num _ = False"

fun truthy_bool :: "bool js \<Rightarrow> bool" where
  "truthy_bool (Has b) = b"
| "truthy_bool _ = False"

text \<open>\<open>a || b\<close> on string-valued properties.\<close>

definition or_str :: "string js \<Rightarrow> string js \<Rightarrow> string js" where
  "or_str a b = (if truthy_str a then a else b)"

text \<open>\<open>String(x)\<close>, also the conversion of a property key and of a template-literal hole.\<close>

fun to_String :: "string js \<Rightarrow> string" where
  "to_String Undefined = ''undefined''"
| "to_String Null = ''null''"
| "to_String (Has s) = s"

text \<open>The exceptions the modelled code can raise.\<close>

datatype error =
    TypeError
  | RangeError
  | DigestFailure
  | Error string

subsection \<open>Strings\<close>

definition digit_char :: "nat \<Rightarrow> char" where
  "digit_char d = char_of (48 + d)"

fun show_nat :: "nat \<Rightarrow> string" where
  "show_nat n = (if n < 10 then [digit_char n] else show_nat (n div 10) @ [digit_char (n mod 10)])"

declare show_nat.simps [simp del]

text \<open>\<open>String.prototype.toLowerCase\<close> on the ASCII letters.\<close>

definition lower_char :: "char \<Rightarrow> char" where
  "lower_char c = (let n = of_char c :: nat in if 65 \<le> n \<and> n \<le> 90 then char_of (n + 32) else c)"

definition toLowerCase :: "string \<Rightarrow> string" where
  "toLowerCase s = map lower_char s"

text \<open>\<open>String.prototype.includes\<close>: the needle occurs at some position.\<close>

fun starts_with :: "string \<Rightarrow> string \<Rightarrow> bool" where
  "starts_with s [] = True"
| "starts_with [] (p # ps) = False"
| "starts_with (c # cs) (p # ps) = (c = p \<and> starts_with cs ps)"

fun includes_str :: "string \<Rightarrow> string \<Rightarrow> bool" where
  "includes_str [] p = (p = [])"
| "includes_str (c # cs) p = (starts_with (c # cs) p \<or> includes_str cs p)"

subsection \<open>Arrays\<close>

text \<open>
  \<open>Array.prototype.sort\<close> with a comparator: the sort is stable, an element goes before
  another when the comparator is negative, and elements that compare as 0 keep their order.
\<close>

fun insort_by :: "('a \<Rightarrow> 'a \<Rightarrow> int) \<Rightarrow> 'a \<Rightarrow> 'a list \<Rightarrow> 'a list" where
  "insort_by c x [] = [x]"
| "insort_by c x (y # ys) = (if c x y \<le> 0 then x # y # ys else y # insort_by c x ys)"

definition js_sort :: "('a \<Rightarrow> 'a \<Rightarrow> int) \<Rightarrow> 'a list \<Rightarrow> 'a list" where
  "js_sort c xs = foldr (insort_by c) xs []"

text \<open>A \<open>Set\<close> keeps its members in insertion order; \<open>add\<close> ignores a member already there.\<close>

definition set_add :: "'a \<Rightarrow> 'a list \<Rightarrow> 'a list" where
  "set_add x s = (if x \<in> set s then s else s @ [x])"

text \<open>
  An object used as a dictionary: the keys in insertion order. Assigning to a key that
  exists replaces the value in place, a new key goes to the end.
\<close>

fun assign :: "string \<Rightarrow> 'v \<Rightarrow> (string \<times> 'v) list \<Rightarrow> (string \<times> 'v) list" where
  "assign k v [] = [(k, v)]"
| "assign k v ((k', v') # m) = (if k' = k then (k, v) # m else (k', v') # assign k v m)"

section \<open>The source graph\<close>

text \<open>
  Record fields are global names in HOL, so the fields of each record carry a short prefix
  in front of the property name of the source.
\<close>

subsection \<open>Resource table\<close>

record element =
  e_Id :: "string js"
  e_ID :: "string js"
  e_Value :: "string js"
  e_OriginalDisplayMember :: "string js"
  e_SortOrder :: "int js"
  e_Order :: "int js"
  e_ResourceGroupID :: "string js"

text \<open>
  A value of the resource table is an object that may carry an \<open>Elements\<close> array and may
  carry further keys of its own, each again such an object.
\<close>

datatype rnode = RNode (Elements: "element list option") (nested: "(string \<times> rnode) list")

type_synonym resources = "(string \<times> rnode) list"

subsection \<open>Field dictionary\<close>

record dict_field =
  f_bpID :: "string js"
  f_bindingPathEntryId :: "string js"
  f_key :: "string js"
  f_type :: "string js"
  f_controlType :: "string js"
  f_formID :: "string js"
  f_panelID :: "string js"
  f_sectionID :: "string js"
  f_locationName :: "string js"
  f_formManagerNoDataNodeID :: "string js"
  f_presetValueDefinitionID :: "string js"

subsection \<open>Layouts\<close>

text \<open>
  Layout objects and controls are live objects that refer to each other, possibly in a
  cycle: they live in a heap and are named by their address.
\<close>

type_synonym addr = nat

record panel =
  p_Name :: "string js"
  p_Controls :: "addr list option"

record form =
  fm_Name :: "string js"
  fm_Panels :: "panel list option"
  fm_Controls :: "addr list option"

record node =
  BindingPathEntryID :: "string js"
  BindingPath :: "string js"
  ControlType :: "string js"
  Required :: "bool js"
  ResourceGroupID :: "string js"
  IsRepeating :: "bool js"
  IsCollection :: "bool js"
  MaxCardinality :: "int js"
  MinLength :: "int js"
  MaxLength :: "int js"
  MinValue :: "int js"
  MaxValue :: "int js"
  Pattern :: "string js"
  Mask :: "string js"
  DefaultValue :: "string js"
  IsRequired :: "bool js"
  FormManagerNoDataNodeID :: "string js"
  DisplayOrder :: "int js"
  ColumnSpan :: "int js"
  Name :: "string js"
  Label :: "string js"
  ID :: "string js"
  Controls :: "addr list option"
  Forms :: "form list option"
  Panels :: "panel list option"

type_synonym heap = "addr \<Rightarrow> node"

datatype layouts = NoLayouts | LayoutObject addr | LayoutArray "addr list"

subsection \<open>Rules and form actions\<close>

record raw_term =
  t_BindingPathEntryID :: "string js"
  t_PathFromParentList :: "string js"
  t_Value :: "string js"

record term_group =
  tg_Terms :: "raw_term list option"
  tg_CalculationOperatorID :: "int js"

record raw_comparison =
  LeftTermGroup :: "term_group option"
  RightTermGroup :: "term_group option"
  ExpressionOperatorID :: "int js"

text \<open>
  An expression group. An entry of \<open>Expressions\<close> or of \<open>ChildExpressionGroups\<close> may be
  \<open>null\<close> (\<open>None\<close> in the list).
\<close>

datatype raw_expr =
  RawExpr (BooleanOperatorID: "int js")
          (Expressions: "raw_comparison option list option")
          (ChildExpressionGroups: "raw_expr option list option")

record raw_rule =
  r_ActionType :: "string js"
  r_ActionID :: "string js"
  r_Name :: "string js"
  r_AffectedBindingPathEntryID :: "string js"
  r_ErrorMessage :: "string js"
  r_Points :: "int js"
  r_FieldNodeID :: "string js"
  r_AffectedFormHierarchyId :: "string js"
  r_ComponentType :: "string js"
  r_ExpressionGroup :: "raw_expr option"

record action =
  a_ActionType :: "string js"
  a_ExpressionGroup :: "raw_expr option"
  a_others :: "(string \<times> string js) list"

type_synonym form_actions = "(string \<times> action list) list"

section \<open>The extraction result\<close>

record pvalue =
  pv_id :: "string js"
  pv_value :: "string js"
  pv_text :: "string js"
  pv_order :: int

record constraints =
  c_minLength :: "int js"
  c_maxLength :: "int js"
  c_min :: "int js"
  c_max :: "int js"
  c_pattern :: "string js"
  c_mask :: "string js"
  c_defaultValue :: "string js"
  c_minOccurs :: int
  c_maxOccurs :: int
  c_nillable :: bool

record metadata =
  m_isRepeating :: "bool js"
  m_isCollection :: "bool js"
  m_displayOrder :: "int js"
  m_columnSpan :: "int js"

text \<open>
  A field descriptor. A property the code never assigned is \<open>Undefined\<close> (\<open>None\<close> for the
  nested objects and the list).
\<close>

record descriptor =
  d_id :: "string js"
  d_key :: "string js"
  d_label :: "string js"
  d_type :: "string js"
  d_formId :: "string js"
  d_panelId :: "string js"
  d_sectionId :: "string js"
  d_location :: "string js"
  d_formManagerNodeId :: "string js"
  d_presetValueDefinitionId :: "string js"
  d_resourceId :: "string js"
  d_possibleValues :: "pvalue list option"
  d_bindingPath :: "string js"
  d_path :: "string js"
  d_controlType :: "string js"
  d_required :: "bool js"
  d_resourceGroupId :: "string js"
  d_constraints :: "constraints option"
  d_metadata :: "metadata option"

record resource_group =
  g_id :: string
  g_name :: "string js"
  g_elements :: "pvalue list option"

type_synonym fieldMap = "(string \<times> descriptor) list"


section \<open>Field extraction\<close>

subsection \<open>Enumeration lookup of a dictionary field\<close>

text \<open>
  \<open>{ id: elem.Id, value: elem.Value, text: elem.OriginalDisplayMember || elem.Value,
  order: elem.SortOrder || 0 }\<close>
\<close>

definition possibleValue :: "element \<Rightarrow> pvalue" where
  "possibleValue elem =
     \<lparr> pv_id = e_Id elem,
       pv_value = e_Value elem,
       pv_text = or_str (e_OriginalDisplayMember elem) (e_Value elem),
       pv_order = (case e_SortOrder elem of Has n \<Rightarrow> n | _ \<Rightarrow> 0) \<rparr>"

text \<open>
  What both branches of the lookup do with the group they found: set \<open>resourceId\<close> and,
  if the group has \<open>Elements\<close>, fill \<open>possibleValues\<close>.
\<close>

definition with_group :: "string \<Rightarrow> rnode \<Rightarrow> descriptor \<Rightarrow> descriptor" where
  "with_group resourceId g d =
     (case Elements g of
        Some es \<Rightarrow> d\<lparr> d_resourceId := Has resourceId, d_possibleValues := Some (map possibleValue es) \<rparr>
      | None \<Rightarrow> d\<lparr> d_resourceId := Has resourceId \<rparr>)"

text \<open>
  \<open>for (const topKey in resources)\<close>: the first top-level value that has the key, then
  \<open>break\<close>. The association list is in the iteration order of the object.
\<close>

fun find_nested :: "resources \<Rightarrow> string \<Rightarrow> rnode option" where
  "find_nested [] resourceId = None"
| "find_nested ((topKey, v) # rest) resourceId =
     (case map_of (nested v) resourceId of
        Some g \<Rightarrow> Some g
      | None \<Rightarrow> find_nested rest resourceId)"

text \<open>
  The body of \<open>dictionary.forEach\<close>: the descriptor stored under the field's id. The
  source stores the base descriptor first and then writes \<open>resourceId\<close> and
  \<open>possibleValues\<close> into the stored object; \<open>dictionaryDescriptor\<close> is that object after
  the writes.
\<close>

definition dictionaryFieldId :: "dict_field \<Rightarrow> string js" where
  "dictionaryFieldId field = or_str (f_bpID field) (f_bindingPathEntryId field)"

definition dictionaryDescriptor :: "resources option \<Rightarrow> dict_field \<Rightarrow> descriptor" where
  "dictionaryDescriptor resources field =
     (let fieldId = dictionaryFieldId field;
          base = \<lparr> d_id = fieldId,
                   d_key = f_key field,
                   d_label = f_key field,
                   d_type = or_str (f_type field) (f_controlType field),
                   d_formId = f_formID field,
                   d_panelId = f_panelID field,
                   d_sectionId = f_sectionID field,
                   d_location = f_locationName field,
                   d_formManagerNodeId = f_formManagerNoDataNodeID field,
                   d_presetValueDefinitionId = f_presetValueDefinitionID field,
                   d_resourceId = Null,
                   d_possibleValues = Some [],
                   d_bindingPath = Null,
                   d_path = Undefined,
                   d_controlType = Undefined,
                   d_required = Undefined,
                   d_resourceGroupId = Undefined,
                   d_constraints = None,
                   d_metadata = None \<rparr>;
          resourceId = or_str (f_bpID field) (f_bindingPathEntryId field)
      in if f_type field = Has ''SingleSelect'' \<or> f_type field = Has ''MultiSelect'' then
           (case resources of
              None \<Rightarrow> base
            | Some res \<Rightarrow>
                if truthy_str resourceId then
                  (case map_of res (to_String resourceId) of
                     Some g \<Rightarrow> with_group (to_String resourceId) g base
                   | None \<Rightarrow>
                       (case find_nested res (to_String resourceId) of
                          Some g \<Rightarrow> with_group (to_String resourceId) g base
                        | None \<Rightarrow> base))
                else base)
         else base)"

definition dictionaryEntry :: "resources option \<Rightarrow> dict_field \<Rightarrow> fieldMap \<Rightarrow> fieldMap" where
  "dictionaryEntry resources field fieldMap =
     assign (to_String (dictionaryFieldId field)) (dictionaryDescriptor resources field) fieldMap"

subsection \<open>Layout traversal\<close>

text \<open>The five signals of a collection field; the source computes them in both branches.\<close>

definition isCollectionField :: "node \<Rightarrow> bool" where
  "isCollectionField control \<longleftrightarrow>
     (truthy_str (ControlType control)
        \<and> includes_str (toLowerCase (to_String (ControlType control))) ''grid'')
     \<or> ControlType control = Has ''MultiSelect''
     \<or> (truthy_str (BindingPath control) \<and> includes_str (to_String (BindingPath control)) ''[]'')
     \<or> truthy_bool (IsRepeating control)
     \<or> truthy_bool (IsCollection control)
     \<or> (truthy_num (MaxCardinality control)
          \<and> (case MaxCardinality control of Has n \<Rightarrow> n > 1 | _ \<Rightarrow> False))"

definition controlConstraints :: "node \<Rightarrow> constraints" where
  "controlConstraints control =
     \<lparr> c_minLength = MinLength control,
       c_maxLength = MaxLength control,
       c_min = MinValue control,
       c_max = MaxValue control,
       c_pattern = Pattern control,
       c_mask = Mask control,
       c_defaultValue = DefaultValue control,
       c_minOccurs = (if truthy_bool (IsRequired control) then 1 else 0),
       c_maxOccurs = (if isCollectionField control then -1 else 1),
       c_nillable = truthy_str (FormManagerNoDataNodeID control) \<rparr>"

definition controlMetadata :: "node \<Rightarrow> metadata" where
  "controlMetadata control =
     \<lparr> m_isRepeating = IsRepeating control,
       m_isCollection = IsCollection control,
       m_displayOrder = DisplayOrder control,
       m_columnSpan = ColumnSpan control \<rparr>"

text \<open>The branch for a field the map has: its descriptor takes the layout attributes.\<close>

definition updatedDescriptor :: "node \<Rightarrow> descriptor \<Rightarrow> descriptor" where
  "updatedDescriptor control d =
     d\<lparr> d_bindingPath := BindingPath control,
        d_controlType := ControlType control,
        d_required := Required control,
        d_resourceGroupId := ResourceGroupID control,
        d_constraints := Some (controlConstraints control),
        d_metadata := Some (controlMetadata control) \<rparr>"

text \<open>The branch for a field the dictionary did not have.\<close>

definition createdDescriptor :: "node \<Rightarrow> string \<Rightarrow> descriptor" where
  "createdDescriptor control path =
     \<lparr> d_id = BindingPathEntryID control,
       d_key = Undefined,
       d_label = Label control,
       d_type = ControlType control,
       d_formId = Undefined,
       d_panelId = Undefined,
       d_sectionId = Undefined,
       d_location = Undefined,
       d_formManagerNodeId = Undefined,
       d_presetValueDefinitionId = Undefined,
       d_resourceId = Undefined,
       d_possibleValues = None,
       d_bindingPath = BindingPath control,
       d_path = Has (path @ ''/'' @ to_String (or_str (Name control) (or_str (Label control) (Has ''field'')))),
       d_controlType = Undefined,
       d_required = Required control,
       d_resourceGroupId = ResourceGroupID control,
       d_constraints = Some (controlConstraints control),
       d_metadata = Some (controlMetadata control) \<rparr>"

text \<open>
  What \<open>controls.forEach\<close> does with one control before it recurses: nothing without a
  \<open>BindingPathEntryID\<close>; otherwise the descriptor of that id is updated if the map has it
  and created if not.
\<close>

definition visitControl :: "node \<Rightarrow> string \<Rightarrow> fieldMap \<Rightarrow> fieldMap" where
  "visitControl control path fieldMap =
     (if truthy_str (BindingPathEntryID control) then
        (let fieldId = to_String (BindingPathEntryID control) in
         case map_of fieldMap fieldId of
           Some d \<Rightarrow> assign fieldId (updatedDescriptor control d) fieldMap
         | None \<Rightarrow> assign fieldId (createdDescriptor control path) fieldMap)
      else fieldMap)"

text \<open>
  \<open>traverseControls(controls, path, depth)\<close>. The recursion follows \<open>control.Controls\<close>
  through the heap, so it may meet the same control again; it stops below depth 10.
\<close>

function traverseControls :: "heap \<Rightarrow> addr list option \<Rightarrow> string \<Rightarrow> nat \<Rightarrow> fieldMap \<Rightarrow> fieldMap" where
  "traverseControls h controls path depth fieldMap =
     (case controls of
        None \<Rightarrow> fieldMap
      | Some cs \<Rightarrow>
          if depth > 10 then fieldMap
          else fold (\<lambda>a fm.
                 (case Controls (h a) of
                    None \<Rightarrow> visitControl (h a) path fm
                  | Some children \<Rightarrow>
                      traverseControls h (Some children)
                        (path @ ''/'' @ to_String (or_str (Name (h a)) (Has ''group'')))
                        (depth + 1) (visitControl (h a) path fm)))
               cs fieldMap)"
  by pat_completeness auto
termination
  by (relation "measure (\<lambda>(h, controls, path, depth, fieldMap). 11 - depth)") auto

declare traverseControls.simps [simp del]

definition panelPath :: "string \<Rightarrow> panel \<Rightarrow> string" where
  "panelPath pre p = pre @ ''Panel['' @ to_String (p_Name p) @ '']''"

definition traversePanels :: "heap \<Rightarrow> string \<Rightarrow> panel list \<Rightarrow> fieldMap \<Rightarrow> fieldMap" where
  "traversePanels h pre ps fieldMap =
     fold (\<lambda>p fm. traverseControls h (p_Controls p) (panelPath pre p) 0 fm) ps fieldMap"

definition traverseForm :: "heap \<Rightarrow> nat \<times> form \<Rightarrow> fieldMap \<Rightarrow> fieldMap" where
  "traverseForm h = (\<lambda>(formIndex, form) fieldMap.
     (let fm1 = (case fm_Panels form of
                   None \<Rightarrow> fieldMap
                 | Some ps \<Rightarrow> traversePanels h (''Form['' @ show_nat formIndex @ '']/'') ps fieldMap)
      in case fm_Controls form of
           None \<Rightarrow> fm1
         | Some cs \<Rightarrow> traverseControls h (Some cs) (''Form['' @ show_nat formIndex @ '']'') 0 fm1))"

definition traverseForms :: "heap \<Rightarrow> node \<Rightarrow> fieldMap \<Rightarrow> fieldMap" where
  "traverseForms h layout fieldMap =
     (let fm1 = (case Forms layout of
                   None \<Rightarrow> fieldMap
                 | Some forms \<Rightarrow> fold (traverseForm h) (List.enumerate 0 forms) fieldMap)
      in case Panels layout of
           None \<Rightarrow> fm1
         | Some ps \<Rightarrow> traversePanels h [] ps fm1)"

text \<open>The \<open>fieldMap\<close> of \<open>extractFields\<close> when the function returns.\<close>

definition buildFieldMap ::
  "heap \<Rightarrow> layouts \<Rightarrow> dict_field list option \<Rightarrow> resources option \<Rightarrow> fieldMap" where
  "buildFieldMap h layouts dictionary resources =
     (let fieldMap = (case dictionary of
                        None \<Rightarrow> []
                      | Some entries \<Rightarrow> fold (dictionaryEntry resources) entries [])
      in case layouts of
           NoLayouts \<Rightarrow> fieldMap
         | LayoutArray ls \<Rightarrow> fold (\<lambda>a fm. traverseForms h (h a) fm) ls fieldMap
         | LayoutObject a \<Rightarrow> traverseForms h (h a) fieldMap)"

text \<open>\<open>Object.values(fieldMap)\<close>\<close>

definition extractFields ::
  "heap \<Rightarrow> layouts \<Rightarrow> dict_field list option \<Rightarrow> resources option \<Rightarrow> descriptor list" where
  "extractFields h layouts dictionary resources =
     map snd (buildFieldMap h layouts dictionary resources)"

subsection \<open>Resource groups\<close>

text \<open>
  \<open>{ id: elem.Id || elem.ID, value: elem.Value, text: elem.OriginalDisplayMember || elem.Value,
  order: elem.SortOrder || elem.Order || 0 }\<close>
\<close>

definition groupElement :: "element \<Rightarrow> pvalue" where
  "groupElement elem =
     \<lparr> pv_id = or_str (e_Id elem) (e_ID elem),
       pv_value = e_Value elem,
       pv_text = or_str (e_OriginalDisplayMember elem) (e_Value elem),
       pv_order = (if truthy_num (e_SortOrder elem) then (case e_SortOrder elem of Has n \<Rightarrow> n | _ \<Rightarrow> 0)
                   else (case e_Order elem of Has n \<Rightarrow> n | _ \<Rightarrow> 0)) \<rparr>"

definition resourceGroup :: "string \<Rightarrow> element list \<Rightarrow> resource_group" where
  "resourceGroup key es =
     \<lparr> g_id = key,
       g_name = (case es of [] \<Rightarrow> Has key | e # _ \<Rightarrow> or_str (e_ResourceGroupID e) (Has key)),
       g_elements = Some (map groupElement es) \<rparr>"

definition extractResourceGroups :: "resources option \<Rightarrow> resource_group list" where
  "extractResourceGroups resources =
     (case resources of
        None \<Rightarrow> []
      | Some res \<Rightarrow>
          concat (map (\<lambda>(topKey, topLevel).
            (case Elements topLevel of
               Some es \<Rightarrow> [resourceGroup topKey es]
             | None \<Rightarrow>
                 concat (map (\<lambda>(nestedKey, nestedGroup).
                   (case Elements nestedGroup of
                      Some es \<Rightarrow> [resourceGroup nestedKey es]
                    | None \<Rightarrow> [])) (nested topLevel)))) res))"


section \<open>Rules\<close>

record left_term =
  lt_fieldId :: "string js"
  lt_path :: "string js"
  lt_value :: "string js"

record right_term =
  rt_values :: "string js list"
  rt_operator :: "int js"

record comparison =
  cmp_leftTerm :: "left_term option"
  cmp_rightTerm :: "right_term option"
  cmp_operator :: "int js"

text \<open>
  The normalised expression. \<open>expressions\<close> and \<open>childGroups\<close> are \<open>None\<close> when the
  property is \<open>undefined\<close>; an entry of \<open>childGroups\<close> is \<open>None\<close> when it is \<open>null\<close>.
\<close>

datatype norm_expr =
  NormExpr (booleanOperator: "int js")
           (expressions: "comparison list option")
           (childGroups: "norm_expr option list option")

record rule =
  rl_type :: string
  rl_id :: "string js"
  rl_name :: "string js"
  rl_targetField :: "string js"
  rl_errorMessage :: "string js"
  rl_points :: "int js"
  rl_componentType :: "string js"
  rl_expression :: "norm_expr option"

text \<open>
  The callback of \<open>expr.Expressions?.map\<close>. On a \<open>null\<close> entry the first property read,
  \<open>exp.LeftTermGroup\<close>, throws.
\<close>

definition normalizeComparison :: "raw_comparison option \<Rightarrow> error + comparison" where
  "normalizeComparison exp =
     (case exp of
        None \<Rightarrow> Inl TypeError
      | Some x \<Rightarrow>
          Inr \<lparr> cmp_leftTerm =
                  (case LeftTermGroup x of
                     None \<Rightarrow> None
                   | Some tg \<Rightarrow>
                       (case tg_Terms tg of
                          None \<Rightarrow> None
                        | Some [] \<Rightarrow> None
                        | Some (t # ts) \<Rightarrow>
                            Some \<lparr> lt_fieldId = t_BindingPathEntryID t,
                                   lt_path = t_PathFromParentList t,
                                   lt_value = t_Value t \<rparr>)),
                cmp_rightTerm =
                  (case RightTermGroup x of
                     None \<Rightarrow> None
                   | Some tg \<Rightarrow>
                       (case tg_Terms tg of
                          None \<Rightarrow> None
                        | Some ts \<Rightarrow>
                            Some \<lparr> rt_values = map t_Value ts,
                                   rt_operator = tg_CalculationOperatorID tg \<rparr>)),
                cmp_operator = ExpressionOperatorID x \<rparr>)"

text \<open>\<open>Array.prototype.map\<close> with a callback that may throw: the first exception ends it.\<close>

fun map_throwing :: "('a \<Rightarrow> error + 'b) \<Rightarrow> 'a list \<Rightarrow> error + 'b list" where
  "map_throwing f [] = Inr []"
| "map_throwing f (x # xs) =
     (case f x of
        Inl e \<Rightarrow> Inl e
      | Inr y \<Rightarrow> (case map_throwing f xs of Inl e \<Rightarrow> Inl e | Inr ys \<Rightarrow> Inr (y # ys)))"

text \<open>
  \<open>normalizeExpression(expr)\<close>; \<open>normalizeChildren\<close> is the \<open>map\<close> over
  \<open>expr.ChildExpressionGroups\<close>.
\<close>

function normalizeExpression :: "raw_expr option \<Rightarrow> error + norm_expr option"
  and normalizeChildren :: "raw_expr option list \<Rightarrow> error + norm_expr option list" where
  "normalizeExpression None = Inr None"
| "normalizeExpression (Some (RawExpr b exps children)) =
     (case (case exps of
              None \<Rightarrow> Inr None
            | Some es \<Rightarrow> map_sum id Some (map_throwing normalizeComparison es)) of
        Inl e \<Rightarrow> Inl e
      | Inr expressions' \<Rightarrow>
          (case children of
             None \<Rightarrow> Inr (Some (NormExpr b expressions' None))
           | Some cs \<Rightarrow>
               (case normalizeChildren cs of
                  Inl e \<Rightarrow> Inl e
                | Inr gs \<Rightarrow> Inr (Some (NormExpr b expressions' (Some gs))))))"
| "normalizeChildren [] = Inr []"
| "normalizeChildren (c # cs) =
     (case normalizeExpression c of
        Inl e \<Rightarrow> Inl e
      | Inr g \<Rightarrow> (case normalizeChildren cs of Inl e \<Rightarrow> Inl e | Inr gs \<Rightarrow> Inr (g # gs)))"
  by pat_completeness auto
termination
  by (relation "measure (\<lambda>x. case x of
         Inl expr \<Rightarrow> size_option size expr
       | Inr cs \<Rightarrow> size_list (size_option size) cs)") auto

text \<open>The two loops of \<open>extractRules\<close>; a \<open>null\<close> rule is skipped (\<open>rule && ...\<close>).\<close>

definition validationRule :: "raw_rule option \<Rightarrow> error + rule list" where
  "validationRule r =
     (case r of
        None \<Rightarrow> Inr []
      | Some rule \<Rightarrow>
          if r_ActionType rule = Has ''Validation'' then
            (case normalizeExpression (r_ExpressionGroup rule) of
               Inl e \<Rightarrow> Inl e
             | Inr ex \<Rightarrow>
                 Inr [\<lparr> rl_type = ''validation'',
                        rl_id = r_ActionID rule,
                        rl_name = r_Name rule,
                        rl_targetField = r_AffectedBindingPathEntryID rule,
                        rl_errorMessage = r_ErrorMessage rule,
                        rl_points = r_Points rule,
                        rl_componentType = Undefined,
                        rl_expression = ex \<rparr>])
          else Inr [])"

definition visibilityRule :: "raw_rule option \<Rightarrow> error + rule list" where
  "visibilityRule r =
     (case r of
        None \<Rightarrow> Inr []
      | Some rule \<Rightarrow>
          if r_ActionType rule = Has ''Visibility'' then
            (case normalizeExpression (r_ExpressionGroup rule) of
               Inl e \<Rightarrow> Inl e
             | Inr ex \<Rightarrow>
                 Inr [\<lparr> rl_type = ''visibility'',
                        rl_id = r_ActionID rule,
                        rl_name = Undefined,
                        rl_targetField = or_str (r_FieldNodeID rule) (r_AffectedFormHierarchyId rule),
                        rl_errorMessage = Undefined,
                        rl_points = Undefined,
                        rl_componentType = r_ComponentType rule,
                        rl_expression = ex \<rparr>])
          else Inr [])"

definition extractRules ::
  "raw_rule option list option \<Rightarrow> raw_rule option list option \<Rightarrow> error + rule list" where
  "extractRules validations visibilities =
     (case map_throwing validationRule (case validations of None \<Rightarrow> [] | Some vs \<Rightarrow> vs) of
        Inl e \<Rightarrow> Inl e
      | Inr rules1 \<Rightarrow>
          (case map_throwing visibilityRule (case visibilities of None \<Rightarrow> [] | Some vs \<Rightarrow> vs) of
             Inl e \<Rightarrow> Inl e
           | Inr rules2 \<Rightarrow> Inr (concat rules1 @ concat rules2)))"

section \<open>Repeaters\<close>

record repeater =
  rp_id :: "string js"
  rp_path :: string
  rp_childBindings :: "string js list option"

text \<open>\<open>forEach\<close> with a callback that may throw, threading the array being built.\<close>

fun each_throwing :: "('a \<Rightarrow> 's \<Rightarrow> error + 's) \<Rightarrow> 'a list \<Rightarrow> 's \<Rightarrow> error + 's" where
  "each_throwing f [] s = Inr s"
| "each_throwing f (x # xs) s =
     (case f x s of Inl e \<Rightarrow> Inl e | Inr s' \<Rightarrow> each_throwing f xs s')"

text \<open>
  \<open>findRepeaters(node, path)\<close> has no depth guard. The call stack is finite: the first
  argument is the number of frames left, and a call with none left is the engine's
  \<open>RangeError: Maximum call stack size exceeded\<close>.
\<close>

fun findRepeaters :: "nat \<Rightarrow> heap \<Rightarrow> addr \<Rightarrow> string \<Rightarrow> repeater list \<Rightarrow> error + repeater list" where
  "findRepeaters 0 h a path repeaters = Inl RangeError"
| "findRepeaters (Suc frames) h a path repeaters =
     (let node = h a;
          found = (if truthy_bool (IsRepeating node) \<or> ControlType node = Has ''Repeater'' then
                     repeaters @ [\<lparr> rp_id = ID node,
                                     rp_path = path @ ''/'' @ to_String (Name node),
                                     rp_childBindings =
                                       map_option (map (\<lambda>c. BindingPathEntryID (h c))) (Controls node) \<rparr>]
                   else repeaters)
      in case Controls node of
           None \<Rightarrow> Inr found
         | Some children \<Rightarrow>
             each_throwing (\<lambda>child rs. findRepeaters frames h child (path @ ''/'' @ to_String (Name node)) rs)
               children found)"

text \<open>
  \<open>layouts?.forEach(...)\<close>: nothing for absent layouts; a single layout object, which
  \<open>extractFields\<close> accepts, has no \<open>forEach\<close>.
\<close>

definition extractRepeaters :: "nat \<Rightarrow> heap \<Rightarrow> layouts \<Rightarrow> error + repeater list" where
  "extractRepeaters frames h layouts =
     (case layouts of
        NoLayouts \<Rightarrow> Inr []
      | LayoutObject a \<Rightarrow> Inl TypeError
      | LayoutArray ls \<Rightarrow> each_throwing (\<lambda>layout rs. findRepeaters frames h layout [] rs) ls [])"

section \<open>Form actions and operators\<close>

definition extractFormActions :: "form_actions option \<Rightarrow> form_actions option" where
  "extractFormActions formActions =
     (case formActions of
        None \<Rightarrow> None
      | Some fa \<Rightarrow> Some (map (\<lambda>(path, actions). (path, map (\<lambda>action. action) actions)) fa))"

record operator_sets =
  expressionOps :: "int list"
  booleanOps :: "int list"
  calculationOps :: "int option list"

record operatorAnalysis =
  oa_expression :: "int list"
  oa_boolean :: "int list"
  oa_calculation :: "int option list"

text \<open>
  A member of \<open>calculationOps\<close> is a number or \<open>null\<close> (\<open>None\<close>): the test before
  \<open>calculationOps.add\<close> is \<open>!== undefined\<close> alone.
\<close>

definition addCalculation :: "term_group option \<Rightarrow> int option list \<Rightarrow> int option list" where
  "addCalculation tg ops =
     (case tg of
        None \<Rightarrow> ops
      | Some g \<Rightarrow>
          (case tg_CalculationOperatorID g of
             Undefined \<Rightarrow> ops
           | Null \<Rightarrow> set_add None ops
           | Has n \<Rightarrow> set_add (Some n) ops))"

text \<open>The callback of \<open>expr.Expressions.forEach\<close>; a \<open>null\<close> entry throws.\<close>

definition analyzeComparison :: "raw_comparison option \<Rightarrow> operator_sets \<Rightarrow> error + operator_sets" where
  "analyzeComparison exp ops =
     (case exp of
        None \<Rightarrow> Inl TypeError
      | Some x \<Rightarrow>
          (let ops1 = (case ExpressionOperatorID x of
                         Has n \<Rightarrow> ops\<lparr> expressionOps := set_add n (expressionOps ops) \<rparr>
                       | _ \<Rightarrow> ops);
               ops2 = ops1\<lparr> calculationOps := addCalculation (LeftTermGroup x) (calculationOps ops1) \<rparr>
           in Inr (ops2\<lparr> calculationOps := addCalculation (RightTermGroup x) (calculationOps ops2) \<rparr>)))"

function analyzeExpression :: "raw_expr option \<Rightarrow> operator_sets \<Rightarrow> error + operator_sets"
  and analyzeChildren :: "raw_expr option list \<Rightarrow> operator_sets \<Rightarrow> error + operator_sets" where
  "analyzeExpression None ops = Inr ops"
| "analyzeExpression (Some (RawExpr b exps children)) ops =
     (let ops1 = (case b of Has n \<Rightarrow> ops\<lparr> booleanOps := set_add n (booleanOps ops) \<rparr> | _ \<Rightarrow> ops)
      in case (case exps of None \<Rightarrow> Inr ops1 | Some es \<Rightarrow> each_throwing analyzeComparison es ops1) of
           Inl e \<Rightarrow> Inl e
         | Inr ops2 \<Rightarrow>
             (case children of
                None \<Rightarrow> Inr ops2
              | Some cs \<Rightarrow> analyzeChildren cs ops2))"
| "analyzeChildren [] ops = Inr ops"
| "analyzeChildren (c # cs) ops =
     (case analyzeExpression c ops of
        Inl e \<Rightarrow> Inl e
      | Inr ops' \<Rightarrow> analyzeChildren cs ops')"
  by pat_completeness auto
termination
  by (relation "measure (\<lambda>x. case x of
         Inl (expr, ops) \<Rightarrow> size_option size expr
       | Inr (cs, ops) \<Rightarrow> size_list (size_option size) cs)") auto

text \<open>\<open>(a, b) => a - b\<close>, where \<open>null\<close> converts to 0.\<close>

definition numeric_compare :: "int \<Rightarrow> int \<Rightarrow> int" where
  "numeric_compare a b = a - b"

definition nullable_compare :: "int option \<Rightarrow> int option \<Rightarrow> int" where
  "nullable_compare a b = (case a of None \<Rightarrow> 0 | Some x \<Rightarrow> x) - (case b of None \<Rightarrow> 0 | Some y \<Rightarrow> y)"

definition analyzeAction :: "action \<Rightarrow> operator_sets \<Rightarrow> error + operator_sets" where
  "analyzeAction action ops =
     (case a_ExpressionGroup action of
        None \<Rightarrow> Inr ops
      | Some expr \<Rightarrow> analyzeExpression (Some expr) ops)"

definition analyzeOperators :: "form_actions option \<Rightarrow> error + operatorAnalysis option" where
  "analyzeOperators formActions =
     (case formActions of
        None \<Rightarrow> Inr None
      | Some fa \<Rightarrow>
          (case each_throwing analyzeAction (concat (map snd fa))
                  \<lparr> expressionOps = [], booleanOps = [], calculationOps = [] \<rparr> of
             Inl e \<Rightarrow> Inl e
           | Inr ops \<Rightarrow>
               Inr (Some \<lparr> oa_expression = js_sort numeric_compare (expressionOps ops),
                           oa_boolean = js_sort numeric_compare (booleanOps ops),
                           oa_calculation = js_sort nullable_compare (calculationOps ops) \<rparr>)))"


section \<open>The extraction run\<close>

record composer =
  formHierarchyCollectionId :: "string js"
  reportingStandardId :: "string js"
  agencyLayouts :: layouts
  formFieldDictionary :: "dict_field list option"
  agencyResources :: "resources option"

record view_model =
  vm_Resources :: "resources option"
  vm_FormActions :: "form_actions option"

record logic_engine =
  indexedValidationActions :: "raw_rule option list option"
  indexedVisibilityActions :: "raw_rule option list option"

text \<open>
  What the page offers to a run: the form composer (\<open>win.imagetrend?.formComposer || composer\<close>),
  the logic engine, the view model behind \<open>vmObservable\<close>, the heap of layout objects, and
  the number of stack frames a recursion may use.
\<close>

record window =
  formComposer :: "composer option"
  logicEngine :: "logic_engine option"
  vmObservable :: "view_model option"
  objects :: heap
  stack_frames :: nat

record stats =
  fieldCount :: nat
  resourceGroupCount :: nat
  ruleCount :: nat
  repeaterCount :: nat
  fieldsWithBindingPath :: nat
  formActionCount :: nat
  validationRuleCount :: nat
  uniqueOperators :: nat

record payload =
  pl_formHierarchyCollectionId :: "string js"
  pl_reportingStandardId :: "string js"
  pl_fields :: "descriptor list"
  pl_resourceGroups :: "resource_group list"
  pl_formActions :: "form_actions option"
  pl_operators :: "operatorAnalysis option"
  pl_rules :: "rule list"
  pl_repeaters :: "repeater list"
  pl_stats :: stats

text \<open>The one message a run posts to the content script.\<close>

datatype message = IMAGETREND_DATA payload | IMAGETREND_ERROR error

text \<open>\<open>vmObservable?.Resources || formComposer?.agencyResources\<close>\<close>

definition resources_of :: "window \<Rightarrow> resources option" where
  "resources_of win =
     (case (case vmObservable win of None \<Rightarrow> None | Some vm \<Rightarrow> vm_Resources vm) of
        Some res \<Rightarrow> Some res
      | None \<Rightarrow> (case formComposer win of None \<Rightarrow> None | Some fc \<Rightarrow> agencyResources fc))"

definition formActions_of :: "window \<Rightarrow> form_actions option" where
  "formActions_of win = (case vmObservable win of None \<Rightarrow> None | Some vm \<Rightarrow> vm_FormActions vm)"

definition update_stats :: "descriptor list \<Rightarrow> resource_group list \<Rightarrow> form_actions option
    \<Rightarrow> operatorAnalysis option \<Rightarrow> rule list \<Rightarrow> repeater list \<Rightarrow> stats" where
  "update_stats fields' groups formActions operators rules repeaters =
     \<lparr> fieldCount = length fields',
       resourceGroupCount = length groups,
       ruleCount = length rules,
       repeaterCount = length repeaters,
       fieldsWithBindingPath = length (filter (\<lambda>f. truthy_str (d_bindingPath f)) fields'),
       formActionCount = (case formActions of None \<Rightarrow> 0 | Some fa \<Rightarrow> length (concat (map snd fa))),
       validationRuleCount =
         (case formActions of
            None \<Rightarrow> 0
          | Some fa \<Rightarrow> length (filter (\<lambda>a. a_ActionType a = Has ''Validation'') (concat (map snd fa)))),
       uniqueOperators = (case operators of None \<Rightarrow> 0 | Some ops \<Rightarrow> length (oa_expression ops)) \<rparr>"

text \<open>
  The body of the \<open>try\<close> block of \<open>extractFormMapping\<close>: the stages run in the order of the
  object literal, and the first exception leaves the block. Reading
  \<open>formComposer.formHierarchyCollectionId\<close> throws when there is no form composer. The
  timestamp, the page address, the \<open>debug\<close> snapshot and the console output are left out.
\<close>

definition extractFormMapping_try :: "window \<Rightarrow> error + payload" where
  "extractFormMapping_try win =
     (case formComposer win of
        None \<Rightarrow> Inl TypeError
      | Some fc \<Rightarrow>
          (let fields' = extractFields (objects win) (agencyLayouts fc) (formFieldDictionary fc) (resources_of win);
               resourceGroups = extractResourceGroups (resources_of win);
               formActions = extractFormActions (formActions_of win)
           in case analyzeOperators (formActions_of win) of
                Inl e \<Rightarrow> Inl e
              | Inr operators \<Rightarrow>
                  (case extractRules
                          (case logicEngine win of None \<Rightarrow> None | Some le \<Rightarrow> indexedValidationActions le)
                          (case logicEngine win of None \<Rightarrow> None | Some le \<Rightarrow> indexedVisibilityActions le) of
                     Inl e \<Rightarrow> Inl e
                   | Inr rules \<Rightarrow>
                       (case extractRepeaters (stack_frames win) (objects win) (agencyLayouts fc) of
                          Inl e \<Rightarrow> Inl e
                        | Inr repeaters \<Rightarrow>
                            Inr \<lparr> pl_formHierarchyCollectionId = formHierarchyCollectionId fc,
                                  pl_reportingStandardId = reportingStandardId fc,
                                  pl_fields = fields',
                                  pl_resourceGroups = resourceGroups,
                                  pl_formActions = formActions,
                                  pl_operators = operators,
                                  pl_rules = rules,
                                  pl_repeaters = repeaters,
                                  pl_stats = update_stats fields' resourceGroups formActions
                                               operators rules repeaters \<rparr>))))"

definition extractFormMapping :: "window \<Rightarrow> message" where
  "extractFormMapping win =
     (case extractFormMapping_try win of
        Inl e \<Rightarrow> IMAGETREND_ERROR e
      | Inr formData \<Rightarrow> IMAGETREND_DATA formData)"


section \<open>Fingerprints\<close>

subsection \<open>SHA-256\<close>

text \<open>
  The digest the platform computes (FIPS 180-4), on bytes as naturals below 256 and on
  32-bit words as naturals with the wrap-around written out.
\<close>

definition K256 :: "nat list" where
  "K256 =
    [1116352408, 1899447441, 3049323471, 3921009573, 961987163, 1508970993,
     2453635748, 2870763221, 3624381080, 310598401, 607225278, 1426881987,
     1925078388, 2162078206, 2614888103, 3248222580, 3835390401, 4022224774,
     264347078, 604807628, 770255983, 1249150122, 1555081692, 1996064986,
     2554220882, 2821834349, 2952996808, 3210313671, 3336571891, 3584528711,
     113926993, 338241895, 666307205, 773529912, 1294757372, 1396182291,
     1695183700, 1986661051, 2177026350, 2456956037, 2730485921, 2820302411,
     3259730800, 3345764771, 3516065817, 3600352804, 4094571909, 275423344,
     430227734, 506948616, 659060556, 883997877, 958139571, 1322822218,
     1537002063, 1747873779, 1955562222, 2024104815, 2227730452, 2361852424,
     2428436474, 2756734187, 3204031479, 3329325298]"

definition H0 :: "nat list" where
  "H0 =
    [1779033703, 3144134277, 1013904242, 2773480762,
     1359893119, 2600822924, 528734635, 1541459225]"

definition add32 :: "nat \<Rightarrow> nat \<Rightarrow> nat" where
  "add32 x y = (x + y) mod 4294967296"

definition rotr :: "nat \<Rightarrow> nat \<Rightarrow> nat" where
  "rotr n x = x div 2 ^ n + (x mod 2 ^ n) * 2 ^ (32 - n)"

definition shr :: "nat \<Rightarrow> nat \<Rightarrow> nat" where
  "shr n x = x div 2 ^ n"

definition Ch :: "nat \<Rightarrow> nat \<Rightarrow> nat \<Rightarrow> nat" where
  "Ch x y z = (x AND y) XOR ((4294967295 - x) AND z)"

definition Maj :: "nat \<Rightarrow> nat \<Rightarrow> nat \<Rightarrow> nat" where
  "Maj x y z = (x AND y) XOR (x AND z) XOR (y AND z)"

definition bsig0 :: "nat \<Rightarrow> nat" where
  "bsig0 x = rotr 2 x XOR rotr 13 x XOR rotr 22 x"

definition bsig1 :: "nat \<Rightarrow> nat" where
  "bsig1 x = rotr 6 x XOR rotr 11 x XOR rotr 25 x"

definition ssig0 :: "nat \<Rightarrow> nat" where
  "ssig0 x = rotr 7 x XOR rotr 18 x XOR shr 3 x"

definition ssig1 :: "nat \<Rightarrow> nat" where
  "ssig1 x = rotr 17 x XOR rotr 19 x XOR shr 10 x"

definition be4 :: "nat \<Rightarrow> nat list" where
  "be4 x = [x div 16777216 mod 256, x div 65536 mod 256, x div 256 mod 256, x mod 256]"

definition pad_len :: "nat \<Rightarrow> nat list" where
  "pad_len l = [128] @ replicate ((119 - l mod 64) mod 64) 0
       @ be4 ((8 * l) div 4294967296 mod 4294967296) @ be4 ((8 * l) mod 4294967296)"

definition pad :: "nat list \<Rightarrow> nat list" where
  "pad m = m @ pad_len (length m)"

fun be32 :: "nat list \<Rightarrow> nat list" where
  "be32 (a # b # c # d # r) = (((a * 256 + b) * 256 + c) * 256 + d) # be32 r"
| "be32 _ = []"

definition T1 :: "nat \<Rightarrow> nat \<Rightarrow> nat \<Rightarrow> nat \<Rightarrow> nat \<Rightarrow> nat \<Rightarrow> nat" where
  "T1 e f g h k w = add32 (add32 (add32 h (bsig1 e)) (add32 (Ch e f g) k)) w"

definition T2 :: "nat \<Rightarrow> nat \<Rightarrow> nat \<Rightarrow> nat" where
  "T2 a b c = add32 (bsig0 a) (Maj a b c)"

definition next_w :: "nat \<Rightarrow> nat \<Rightarrow> nat \<Rightarrow> nat \<Rightarrow> nat" where
  "next_w w0 w1 w9 w14 = add32 (add32 (ssig1 w14) w9) (add32 (ssig0 w1) w0)"

text \<open>
  One round moves the working variables \<open>a..h\<close>; the message schedule is kept as the
  window of the sixteen words the coming rounds read, extended by one word per round.
\<close>

fun shift_vars :: "nat \<Rightarrow> nat \<Rightarrow> nat list \<Rightarrow> nat list" where
  "shift_vars t1 t2 [a,b,c,d,e,f,g,h] = [add32 t1 t2, a, b, c, add32 d t1, e, f, g]"
| "shift_vars t1 t2 s = s"

fun rounds :: "nat list \<Rightarrow> nat list \<Rightarrow> nat list \<Rightarrow> nat list" where
  "rounds [a,b,c,d,e,f,g,h] (k # ks) [w0,w1,w2,w3,w4,w5,w6,w7,w8,w9,w10,w11,w12,w13,w14,w15] =
     rounds (shift_vars (T1 e f g h k w0) (T2 a b c) [a,b,c,d,e,f,g,h]) ks
       [w1,w2,w3,w4,w5,w6,w7,w8,w9,w10,w11,w12,w13,w14,w15, next_w w0 w1 w9 w14]"
| "rounds s _ _ = s"

definition compress :: "nat list \<Rightarrow> nat list \<Rightarrow> nat list" where
  "compress h blk = map2 add32 h (rounds h K256 (be32 blk))"

fun blocks :: "nat list \<Rightarrow> nat list list" where
  "blocks [] = []"
| "blocks (x # xs) = take 64 (x # xs) # blocks (drop 64 (x # xs))"

definition sha256 :: "nat list \<Rightarrow> nat list" where
  "sha256 m = concat (map be4 (foldl compress H0 (blocks (pad m))))"

subsection \<open>Serialisation\<close>

definition hex_digit :: "nat \<Rightarrow> char" where
  "hex_digit d = ''0123456789abcdef'' ! d"

text \<open>\<open>b.toString(16).padStart(2, '0')\<close> for a byte.\<close>

definition hex2 :: "nat \<Rightarrow> string" where
  "hex2 b = [hex_digit (b div 16 mod 16), hex_digit (b mod 16)]"

definition to_hex :: "nat list \<Rightarrow> string" where
  "to_hex bs = concat (map hex2 bs)"

text \<open>\<open>JSON.stringify\<close> of a string: quotes, with the escapes of ECMA-262 (QuoteJSONString).\<close>

definition json_escape :: "char \<Rightarrow> string" where
  "json_escape c = (let n = of_char c :: nat in
     if n = 34 then [CHR 0x5C, CHR 0x22]
     else if n = 92 then [CHR 0x5C, CHR 0x5C]
     else if n = 8 then [CHR 0x5C, CHR ''b'']
     else if n = 9 then [CHR 0x5C, CHR ''t'']
     else if n = 10 then [CHR 0x5C, CHR ''n'']
     else if n = 12 then [CHR 0x5C, CHR ''f'']
     else if n = 13 then [CHR 0x5C, CHR ''r'']
     else if n < 32 then [CHR 0x5C, CHR ''u'', CHR ''0'', CHR ''0''] @ hex2 n
     else [c])"

definition json_string :: "string \<Rightarrow> string" where
  "json_string s = [CHR 0x22] @ concat (map json_escape s) @ [CHR 0x22]"

definition json_key :: "string \<Rightarrow> string" where
  "json_key k = [CHR 0x22] @ k @ [CHR 0x22, CHR '':'']"

fun intersperse :: "string \<Rightarrow> string list \<Rightarrow> string" where
  "intersperse sep [] = []"
| "intersperse sep [x] = x"
| "intersperse sep (x # y # ys) = x @ sep @ intersperse sep (y # ys)"

definition json_array :: "string list \<Rightarrow> string" where
  "json_array xs = ''['' @ intersperse '','' xs @ '']''"

text \<open>\<open>TextEncoder.encode\<close>: UTF-8, a \<open>char\<close> being a code point below 256.\<close>

definition utf8_char :: "char \<Rightarrow> nat list" where
  "utf8_char c = (let n = of_char c :: nat in if n < 128 then [n] else [192 + n div 64, 128 + n mod 64])"

definition encode :: "string \<Rightarrow> nat list" where
  "encode s = concat (map utf8_char s)"

subsection \<open>The platform\<close>

text \<open>
  Two functions of the host are parameters: the collation \<open>String.prototype.localeCompare\<close>,
  which depends on the locale, and \<open>crypto.subtle.digest('SHA-256', data)\<close>, which may reject.
\<close>

record platform =
  localeCompare :: "string \<Rightarrow> string \<Rightarrow> int"
  digest :: "nat list \<Rightarrow> error + nat list"

subsection \<open>generateHash\<close>

record form_data =
  fd_formHierarchyCollectionId :: "string js"
  fd_fields :: "descriptor list option"
  fd_resourceGroups :: "resource_group list option"

record field_proj =
  fp_id :: string
  fp_bindingPath :: "string option"

record group_proj =
  gp_id :: string
  gp_count :: nat

text \<open>\<open>{ id: String(f.id || ''), bindingPath: f.bindingPath || null }\<close>\<close>

definition project_field :: "descriptor \<Rightarrow> field_proj" where
  "project_field f =
     \<lparr> fp_id = (if truthy_str (d_id f) then to_String (d_id f) else ''''),
       fp_bindingPath = (case d_bindingPath f of Has s \<Rightarrow> (if s = [] then None else Some s) | _ \<Rightarrow> None) \<rparr>"

text \<open>\<open>{ id: String(g.id || ''), count: g.elements?.length || 0 }\<close>\<close>

definition project_group :: "resource_group \<Rightarrow> group_proj" where
  "project_group g =
     \<lparr> gp_id = g_id g,
       gp_count = (case g_elements g of None \<Rightarrow> 0 | Some es \<Rightarrow> length es) \<rparr>"

definition json_field :: "field_proj \<Rightarrow> string" where
  "json_field p = ''{'' @ json_key ''id'' @ json_string (fp_id p) @ '','' @ json_key ''bindingPath''
       @ (case fp_bindingPath p of None \<Rightarrow> ''null'' | Some s \<Rightarrow> json_string s) @ ''}''"

definition json_group :: "group_proj \<Rightarrow> string" where
  "json_group p = ''{'' @ json_key ''id'' @ json_string (gp_id p) @ '','' @ json_key ''count''
       @ show_nat (gp_count p) @ ''}''"

definition structureHash_fields :: "platform \<Rightarrow> form_data \<Rightarrow> field_proj list" where
  "structureHash_fields P fd =
     js_sort (\<lambda>a b. localeCompare P (fp_id a) (fp_id b))
       (map project_field (case fd_fields fd of None \<Rightarrow> [] | Some fs \<Rightarrow> fs))"

definition structureHash_resourceGroups :: "platform \<Rightarrow> form_data \<Rightarrow> group_proj list" where
  "structureHash_resourceGroups P fd =
     js_sort (\<lambda>a b. localeCompare P (gp_id a) (gp_id b))
       (map project_group (case fd_resourceGroups fd of None \<Rightarrow> [] | Some gs \<Rightarrow> gs))"

text \<open>\<open>JSON.stringify(structureHash)\<close>\<close>

definition jsonString :: "platform \<Rightarrow> form_data \<Rightarrow> string" where
  "jsonString P fd =
     ''{'' @ json_key ''fields'' @ json_array (map json_field (structureHash_fields P fd))
       @ '','' @ json_key ''resourceGroups''
       @ json_array (map json_group (structureHash_resourceGroups P fd)) @ ''}''"

text \<open>
  The body of the \<open>try\<close> block. \<open>formData\<close> itself may be \<open>null\<close> or \<open>undefined\<close> (\<open>None\<close>):
  reading \<open>formData.fields\<close> then throws.
\<close>

definition generateHash_try :: "platform \<Rightarrow> form_data option \<Rightarrow> error + string" where
  "generateHash_try P formData =
     (case formData of
        None \<Rightarrow> Inl TypeError
      | Some fd \<Rightarrow>
          (case digest P (encode (jsonString P fd)) of
             Inl e \<Rightarrow> Inl e
           | Inr hashBuffer \<Rightarrow> Inr (to_hex hashBuffer)))"

definition generateHash :: "platform \<Rightarrow> form_data option \<Rightarrow> error + string" where
  "generateHash P formData =
     (case generateHash_try P formData of
        Inl e \<Rightarrow> Inl (Error ''Failed to generate form hash'')
      | Inr hashHex \<Rightarrow> Inr hashHex)"

subsection \<open>generateQuickHash\<close>

text \<open>
  The default \<open>sort()\<close>: \<open>undefined\<close> goes last, everything else is compared as a string by
  code units.
\<close>

fun code_unit_compare :: "string \<Rightarrow> string \<Rightarrow> int" where
  "code_unit_compare [] [] = 0"
| "code_unit_compare [] (y # ys) = -1"
| "code_unit_compare (x # xs) [] = 1"
| "code_unit_compare (x # xs) (y # ys) =
     (if (of_char x :: nat) < of_char y then -1
      else if (of_char y :: nat) < of_char x then 1
      else code_unit_compare xs ys)"

definition default_compare :: "string js \<Rightarrow> string js \<Rightarrow> int" where
  "default_compare x y =
     (if x = Undefined \<and> y = Undefined then 0
      else if x = Undefined then 1
      else if y = Undefined then -1
      else code_unit_compare (to_String x) (to_String y))"

text \<open>An element of an array: \<open>undefined\<close> is written as \<open>null\<close>.\<close>

fun json_id :: "string js \<Rightarrow> string" where
  "json_id (Has s) = json_string s"
| "json_id _ = ''null''"

text \<open>A property: one whose value is \<open>undefined\<close> is left out.\<close>

fun json_prop :: "string \<Rightarrow> string js \<Rightarrow> string list" where
  "json_prop k Undefined = []"
| "json_prop k v = [json_key k @ json_id v]"

definition quickData_json :: "form_data \<Rightarrow> string" where
  "quickData_json fd =
     ''{'' @ intersperse '',''
       (json_prop ''formId'' (fd_formHierarchyCollectionId fd)
        @ [json_key ''fieldCount'' @ show_nat (case fd_fields fd of None \<Rightarrow> 0 | Some fs \<Rightarrow> length fs),
           json_key ''fieldIds'' @ json_array (map json_id
             (case fd_fields fd of None \<Rightarrow> [] | Some fs \<Rightarrow> js_sort default_compare (map d_id fs))),
           json_key ''resourceGroupIds'' @ json_array (map json_string
             (case fd_resourceGroups fd of None \<Rightarrow> []
              | Some gs \<Rightarrow> js_sort code_unit_compare (map g_id gs)))])
     @ ''}''"

definition generateQuickHash_try :: "platform \<Rightarrow> form_data option \<Rightarrow> error + string" where
  "generateQuickHash_try P formData =
     (case formData of
        None \<Rightarrow> Inl TypeError
      | Some fd \<Rightarrow>
          (case digest P (encode (quickData_json fd)) of
             Inl e \<Rightarrow> Inl e
           | Inr hashBuffer \<Rightarrow> Inr (to_hex hashBuffer)))"

definition generateQuickHash :: "platform \<Rightarrow> form_data option \<Rightarrow> error + string" where
  "generateQuickHash P formData =
     (case generateQuickHash_try P formData of
        Inl e \<Rightarrow> Inr ''''
      | Inr hashHex \<Rightarrow> Inr hashHex)"


section \<open>The controls a traversal visits\<close>

text \<open>
  The sequence of calls of the \<open>forEach\<close> body of \<open>traverseControls\<close>, each with the control
  and the path it receives, in the order of the traversal and under the same depth guard.
\<close>

function visits :: "heap \<Rightarrow> addr list option \<Rightarrow> string \<Rightarrow> nat \<Rightarrow> (node \<times> string) list" where
  "visits h controls path depth =
     (case controls of
        None \<Rightarrow> []
      | Some cs \<Rightarrow>
          if depth > 10 then []
          else concat (map (\<lambda>a.
                 (h a, path) #
                 (case Controls (h a) of
                    None \<Rightarrow> []
                  | Some children \<Rightarrow>
                      visits h (Some children)
                        (path @ ''/'' @ to_String (or_str (Name (h a)) (Has ''group'')))
                        (depth + 1)))
               cs))"
  by pat_completeness auto
termination
  by (relation "measure (\<lambda>(h, controls, path, depth). 11 - depth)") auto

declare visits.simps [simp del]

definition panel_visits :: "heap \<Rightarrow> string \<Rightarrow> panel list \<Rightarrow> (node \<times> string) list" where
  "panel_visits h pre ps = concat (map (\<lambda>p. visits h (p_Controls p) (panelPath pre p) 0) ps)"

definition form_visits :: "heap \<Rightarrow> nat \<times> form \<Rightarrow> (node \<times> string) list" where
  "form_visits h = (\<lambda>(formIndex, form).
     (case fm_Panels form of
        None \<Rightarrow> []
      | Some ps \<Rightarrow> panel_visits h (''Form['' @ show_nat formIndex @ '']/'') ps)
     @ (case fm_Controls form of
          None \<Rightarrow> []
        | Some cs \<Rightarrow> visits h (Some cs) (''Form['' @ show_nat formIndex @ '']'') 0))"

definition layout_visits :: "heap \<Rightarrow> node \<Rightarrow> (node \<times> string) list" where
  "layout_visits h layout =
     (case Forms layout of
        None \<Rightarrow> []
      | Some forms \<Rightarrow> concat (map (form_visits h) (List.enumerate 0 forms)))
     @ (case Panels layout of
          None \<Rightarrow> []
        | Some ps \<Rightarrow> panel_visits h [] ps)"

definition all_visits :: "heap \<Rightarrow> layouts \<Rightarrow> (node \<times> string) list" where
  "all_visits h layouts =
     (case layouts of
        NoLayouts \<Rightarrow> []
      | LayoutArray ls \<Rightarrow> concat (map (\<lambda>a. layout_visits h (h a)) ls)
      | LayoutObject a \<Rightarrow> layout_visits h (h a))"

text \<open>The field map after the dictionary phase.\<close>

definition dictionaryMap :: "dict_field list option \<Rightarrow> resources option \<Rightarrow> fieldMap" where
  "dictionaryMap dictionary resources =
     (case dictionary of
        None \<Rightarrow> []
      | Some entries \<Rightarrow> fold (dictionaryEntry resources) entries [])"


section \<open>Notions the statements use\<close>

subsection \<open>Comparators\<close>

text \<open>
  A consistent comparator orders any two elements one way or the other, transitively.
  \<open>ties_identical\<close> says of a list that two entries the comparator does not separate are
  the same entry.
\<close>

definition consistent_comparator :: "('a \<Rightarrow> 'a \<Rightarrow> int) \<Rightarrow> bool" where
  "consistent_comparator c \<longleftrightarrow>
     (\<forall>a b. c a b \<le> 0 \<or> c b a \<le> 0) \<and> (\<forall>a b d. c a b \<le> 0 \<longrightarrow> c b d \<le> 0 \<longrightarrow> c a d \<le> 0)"

definition ties_identical :: "('a \<Rightarrow> 'a \<Rightarrow> int) \<Rightarrow> 'a list \<Rightarrow> bool" where
  "ties_identical c xs \<longleftrightarrow> (\<forall>a\<in>set xs. \<forall>b\<in>set xs. c a b \<le> 0 \<longrightarrow> c b a \<le> 0 \<longrightarrow> a = b)"

definition fields_of :: "form_data \<Rightarrow> descriptor list" where
  "fields_of fd = (case fd_fields fd of None \<Rightarrow> [] | Some fs \<Rightarrow> fs)"

definition groups_of :: "form_data \<Rightarrow> resource_group list" where
  "groups_of fd = (case fd_resourceGroups fd of None \<Rightarrow> [] | Some gs \<Rightarrow> gs)"

subsection \<open>The shape of an expression tree\<close>






section \<open>Concrete inputs\<close>

text \<open>Objects with no property set.\<close>

definition no_element :: element where
  "no_element = \<lparr> e_Id = Undefined, e_ID = Undefined, e_Value = Undefined,
     e_OriginalDisplayMember = Undefined, e_SortOrder = Undefined, e_Order = Undefined,
     e_ResourceGroupID = Undefined \<rparr>"

definition no_field :: dict_field where
  "no_field = \<lparr> f_bpID = Undefined, f_bindingPathEntryId = Undefined, f_key = Undefined,
     f_type = Undefined, f_controlType = Undefined, f_formID = Undefined, f_panelID = Undefined,
     f_sectionID = Undefined, f_locationName = Undefined, f_formManagerNoDataNodeID = Undefined,
     f_presetValueDefinitionID = Undefined \<rparr>"

definition no_node :: node where
  "no_node = \<lparr> BindingPathEntryID = Undefined, BindingPath = Undefined, ControlType = Undefined,
     Required = Undefined, ResourceGroupID = Undefined, IsRepeating = Undefined,
     IsCollection = Undefined, MaxCardinality = Undefined, MinLength = Undefined,
     MaxLength = Undefined, MinValue = Undefined, MaxValue = Undefined, Pattern = Undefined,
     Mask = Undefined, DefaultValue = Undefined, IsRequired = Undefined,
     FormManagerNoDataNodeID = Undefined, DisplayOrder = Undefined, ColumnSpan = Undefined,
     Name = Undefined, Label = Undefined, ID = Undefined, Controls = None, Forms = None,
     Panels = None \<rparr>"

definition no_composer :: composer where
  "no_composer = \<lparr> formHierarchyCollectionId = Undefined, reportingStandardId = Undefined,
     agencyLayouts = NoLayouts, formFieldDictionary = None, agencyResources = None \<rparr>"

text \<open>A browser whose collation is the code-unit order and whose digest never rejects.\<close>

definition browser :: platform where
  "browser = \<lparr> localeCompare = code_unit_compare, digest = (\<lambda>m. Inr (sha256 m)) \<rparr>"

text \<open>A browser whose digest always rejects.\<close>

definition rejecting_browser :: platform where
  "rejecting_browser = \<lparr> localeCompare = code_unit_compare, digest = (\<lambda>m. Inl DigestFailure) \<rparr>"

subsection \<open>The scenario of the specification\<close>

text \<open>
  \<open>FieldDictionary = [{bpID: "F1", type: "SingleSelect"}]\<close>,
  \<open>ResourceTable = {"F1": {Elements: [{Id: "1", Value: "Y", SortOrder: 0},
  {Id: "2", Value: "N", SortOrder: 1}]}}\<close>
\<close>

definition scenario_dictionary :: "dict_field list" where
  "scenario_dictionary = [no_field\<lparr> f_bpID := Has ''F1'', f_type := Has ''SingleSelect'' \<rparr>]"

definition scenario_elements :: "element list" where
  "scenario_elements =
     [no_element\<lparr> e_Id := Has ''1'', e_Value := Has ''Y'', e_SortOrder := Has 0 \<rparr>,
      no_element\<lparr> e_Id := Has ''2'', e_Value := Has ''N'', e_SortOrder := Has 1 \<rparr>]"

definition scenario_resources :: resources where
  "scenario_resources = [(''F1'', RNode (Some scenario_elements) [])]"

text \<open>The same group, one level down: \<open>{"1": {"F1": {Elements: [...]}}}\<close>\<close>

definition nested_resources :: resources where
  "nested_resources = [(''1'', RNode None [(''F1'', RNode (Some scenario_elements) [])])]"

subsection \<open>Reconciliation\<close>

text \<open>
  A dictionary entry with label \<open>"A"\<close> and one layout whose only panel has one control,
  with \<open>BindingPath = "/x/y"\<close> and no label.
\<close>

definition labelled_dictionary :: "dict_field list" where
  "labelled_dictionary = [no_field\<lparr> f_bpID := Has ''F1'', f_key := Has ''A'' \<rparr>]"

definition one_control_heap :: heap where
  "one_control_heap = (\<lambda>a.
     if a = 0 then no_node\<lparr> Panels := Some [\<lparr> p_Name = Has ''P'', p_Controls = Some [1] \<rparr>] \<rparr>
     else no_node\<lparr> BindingPathEntryID := Has ''F1'', BindingPath := Has ''/x/y'',
                     ControlType := Has ''TextBox'' \<rparr>)"

subsection \<open>A control that contains itself\<close>

text \<open>
  A layout at address 0 whose panel and whose own \<open>Controls\<close> hold the control at
  address 1, and that control with \<open>Controls = [itself]\<close>.
\<close>

definition cyclic_heap :: heap where
  "cyclic_heap = (\<lambda>a.
     if a = 0 then no_node\<lparr> Name := Has ''layout'', Controls := Some [1],
                             Panels := Some [\<lparr> p_Name = Has ''P'', p_Controls = Some [1] \<rparr>] \<rparr>
     else no_node\<lparr> BindingPathEntryID := Has ''F1'', Name := Has ''n'', Controls := Some [1] \<rparr>)"

subsection \<open>Expressions\<close>


text \<open>
  \<open>{Expressions: [{RightTermGroup: {Terms: [], CalculationOperatorID: null}}]}\<close>: one
  comparison with no operator of any kind.
\<close>

definition null_calculation_group :: raw_expr where
  "null_calculation_group =
     RawExpr Undefined
       (Some [Some \<lparr> LeftTermGroup = None,
                      RightTermGroup = Some \<lparr> tg_Terms = Some [], tg_CalculationOperatorID = Null \<rparr>,
                      ExpressionOperatorID = Undefined \<rparr>])
       None"

definition null_calculation_actions :: form_actions where
  "null_calculation_actions =
     [(''eVitals.01'', [\<lparr> a_ActionType = Has ''Validation'',
                           a_ExpressionGroup = Some null_calculation_group,
                           a_others = [] \<rparr>])]"

text \<open>\<open>{Expressions: [null]}\<close>: a comparison list with a \<open>null\<close> entry.\<close>

definition null_comparison_group :: raw_expr where
  "null_comparison_group = RawExpr (Has 1) (Some [None]) None"

definition null_comparison_actions :: form_actions where
  "null_comparison_actions =
     [(''eVitals.01'', [\<lparr> a_ActionType = Has ''Validation'',
                           a_ExpressionGroup = Some null_comparison_group,
                           a_others = [] \<rparr>])]"

text \<open>A page with a dictionary of one field and form actions whose analysis throws.\<close>

definition failing_operators_window :: window where
  "failing_operators_window =
     \<lparr> formComposer = Some (no_composer\<lparr> formFieldDictionary := Some scenario_dictionary,
                                          agencyResources := Some scenario_resources \<rparr>),
       logicEngine = None,
       vmObservable = Some \<lparr> vm_Resources = None, vm_FormActions = Some null_comparison_actions \<rparr>,
       objects = (\<lambda>a. no_node),
       stack_frames = 10000 \<rparr>"

text \<open>The same page with a validation rule whose normalisation throws instead.\<close>

definition failing_rules_window :: window where
  "failing_rules_window =
     \<lparr> formComposer = Some (no_composer\<lparr> formFieldDictionary := Some scenario_dictionary,
                                          agencyResources := Some scenario_resources \<rparr>),
       logicEngine = Some \<lparr> indexedValidationActions =
           Some [Some \<lparr> r_ActionType = Has ''Validation'', r_ActionID = Has ''7'',
                        r_Name = Undefined, r_AffectedBindingPathEntryID = Has ''F1'',
                        r_ErrorMessage = Undefined, r_Points = Undefined,
                        r_FieldNodeID = Undefined, r_AffectedFormHierarchyId = Undefined,
                        r_ComponentType = Undefined,
                        r_ExpressionGroup = Some null_comparison_group \<rparr>],
         indexedVisibilityActions = None \<rparr>,
       vmObservable = None,
       objects = (\<lambda>a. no_node),
       stack_frames = 10000 \<rparr>"

text \<open>A page with a form composer and none of the four containers.\<close>

definition empty_window :: window where
  "empty_window =
     \<lparr> formComposer = Some no_composer, logicEngine = None, vmObservable = None,
       objects = (\<lambda>a. no_node), stack_frames = 10000 \<rparr>"

subsection \<open>Resource tables that differ in the order of their containers\<close>

text \<open>
  \<open>{"a": {"eInjury.Location": {Elements: [e]}}, "b": {"eInjury.Location": {Elements: []}}}\<close>
  and the same table with \<open>"b"\<close> before \<open>"a"\<close>.
\<close>

definition container_a :: "string \<times> rnode" where
  "container_a = (''a'', RNode None [(''eInjury.Location'',
      RNode (Some [no_element\<lparr> e_Id := Has ''1'', e_Value := Has ''Y'' \<rparr>]) [])])"

definition container_b :: "string \<times> rnode" where
  "container_b = (''b'', RNode None [(''eInjury.Location'', RNode (Some []) [])])"

definition result_ab :: form_data where
  "result_ab = \<lparr> fd_formHierarchyCollectionId = Undefined, fd_fields = Some [],
     fd_resourceGroups = Some (extractResourceGroups (Some [container_a, container_b])) \<rparr>"

definition result_ba :: form_data where
  "result_ba = \<lparr> fd_formHierarchyCollectionId = Undefined, fd_fields = Some [],
     fd_resourceGroups = Some (extractResourceGroups (Some [container_b, container_a])) \<rparr>"

subsection \<open>Two results with the same entries in another order\<close>

definition two_fields :: "descriptor list" where
  "two_fields = extractFields (\<lambda>a. no_node) NoLayouts
     (Some [no_field\<lparr> f_bpID := Has ''F1'' \<rparr>, no_field\<lparr> f_bpID := Has ''F2'' \<rparr>]) None"

definition result_12 :: form_data where
  "result_12 = \<lparr> fd_formHierarchyCollectionId = Undefined, fd_fields = Some two_fields,
     fd_resourceGroups = Some [] \<rparr>"

definition result_21 :: form_data where
  "result_21 = \<lparr> fd_formHierarchyCollectionId = Undefined, fd_fields = Some (rev two_fields),
     fd_resourceGroups = Some [] \<rparr>"


section \<open>Properties of the array operations\<close>

lemma map_of_assign: "map_of (assign k v m) k' = (if k' = k then Some v else map_of m k')"
  by (induction m) auto

lemma fold_concat_map: "fold f (concat (map g xs)) s = fold (\<lambda>x. fold f (g x)) xs s"
  by (induction xs arbitrary: s) auto

lemma mset_insort_by: "mset (insort_by c x xs) = add_mset x (mset xs)"
  by (induction xs) auto

lemma mset_js_sort: "mset (js_sort c xs) = mset xs"
  by (induction xs) (auto simp: js_sort_def mset_insort_by)

lemma set_insort_by: "set (insort_by c x xs) = insert x (set xs)"
  by (induction xs) auto

lemma sorted_insort_by:
  assumes "consistent_comparator c" and "sorted_wrt (\<lambda>a b. c a b \<le> 0) xs"
  shows "sorted_wrt (\<lambda>a b. c a b \<le> 0) (insort_by c x xs)"
  using assms(2)
proof (induction xs)
  case Nil
  then show ?case by simp
next
  case (Cons y ys)
  have total: "\<And>a b. c a b \<le> 0 \<or> c b a \<le> 0"
    and trans: "\<And>a b d. c a b \<le> 0 \<Longrightarrow> c b d \<le> 0 \<Longrightarrow> c a d \<le> 0"
    using assms(1) unfolding consistent_comparator_def by blast+
  show ?case
  proof (cases "c x y \<le> 0")
    case True
    with Cons.prems trans show ?thesis by auto
  next
    case False
    with total have "c y x \<le> 0" by blast
    with False Cons show ?thesis by (auto simp: set_insort_by)
  qed
qed

lemma sorted_js_sort:
  "consistent_comparator c \<Longrightarrow> sorted_wrt (\<lambda>a b. c a b \<le> 0) (js_sort c xs)"
  by (induction xs) (auto simp: js_sort_def sorted_insort_by)

lemma sorted_same_mset_unique:
  assumes "sorted_wrt (\<lambda>a b. c a b \<le> 0) xs" and "sorted_wrt (\<lambda>a b. c a b \<le> 0) ys"
    and "mset xs = mset ys" and "ties_identical c xs"
  shows "xs = ys"
  using assms
proof (induction xs arbitrary: ys)
  case Nil
  then show ?case by simp
next
  case (Cons x xs)
  then obtain y ys' where ys: "ys = y # ys'" by (cases ys) auto
  have sets: "set (x # xs) = set ys"
    using Cons.prems(3) by (metis set_mset_mset)
  have "x = y"
  proof (rule ccontr)
    assume neq: "x \<noteq> y"
    with sets ys have "x \<in> set ys'" and "y \<in> set xs" by auto
    then have "c y x \<le> 0" and "c x y \<le> 0"
      using Cons.prems(1,2) ys by auto
    moreover have "x \<in> set (x # xs)" and "y \<in> set (x # xs)"
      using \<open>y \<in> set xs\<close> by auto
    ultimately have "x = y"
      using Cons.prems(4) unfolding ties_identical_def by blast
    with neq show False by contradiction
  qed
  moreover have "xs = ys'"
  proof (rule Cons.IH)
    show "sorted_wrt (\<lambda>a b. c a b \<le> 0) xs" using Cons.prems(1) by simp
    show "sorted_wrt (\<lambda>a b. c a b \<le> 0) ys'" using Cons.prems(2) ys by simp
    show "mset xs = mset ys'" using Cons.prems(3) ys \<open>x = y\<close> by simp
    show "ties_identical c xs" using Cons.prems(4) unfolding ties_identical_def by auto
  qed
  ultimately show ?case using ys by simp
qed

lemma js_sort_permutation:
  assumes "consistent_comparator c" and "mset xs = mset ys" and "ties_identical c xs"
  shows "js_sort c xs = js_sort c ys"
proof (rule sorted_same_mset_unique)
  show "sorted_wrt (\<lambda>a b. c a b \<le> 0) (js_sort c xs)" using assms(1) by (rule sorted_js_sort)
  show "sorted_wrt (\<lambda>a b. c a b \<le> 0) (js_sort c ys)" using assms(1) by (rule sorted_js_sort)
  show "mset (js_sort c xs) = mset (js_sort c ys)" using assms(2) by (simp add: mset_js_sort)
  have "set (js_sort c xs) = set xs" by (metis mset_js_sort set_mset_mset)
  with assms(3) show "ties_identical c (js_sort c xs)" by (simp add: ties_identical_def)
qed

lemma consistent_comparator_on_key:
  "consistent_comparator c \<Longrightarrow> consistent_comparator (\<lambda>a b. c (k a) (k b))"
  unfolding consistent_comparator_def by blast


section \<open>Fingerprint functions\<close>

lemma hex_digit_lower: "d < 16 \<Longrightarrow> hex_digit d \<in> set ''0123456789abcdef''"
  unfolding hex_digit_def by (rule nth_mem) simp

lemma hex2_lower: "set (hex2 b) \<subseteq> set ''0123456789abcdef''"
proof -
  have "hex_digit (b div 16 mod 16) \<in> set ''0123456789abcdef''"
    by (rule hex_digit_lower) simp
  moreover have "hex_digit (b mod 16) \<in> set ''0123456789abcdef''"
    by (rule hex_digit_lower) simp
  ultimately show ?thesis
    unfolding hex2_def by (simp only: list.set insert_subset empty_subsetI simp_thms)
qed

lemma to_hex_lower: "set (to_hex bs) \<subseteq> set ''0123456789abcdef''"
proof (induction bs)
  case Nil
  show ?case by (simp add: to_hex_def)
next
  case (Cons b bs)
  have "to_hex (b # bs) = hex2 b @ to_hex bs" by (simp add: to_hex_def)
  with Cons hex2_lower [of b] show ?case by (simp only: set_append Un_subset_iff simp_thms)
qed

text \<open>A fingerprint that \<open>generateHash\<close> returns is written in lowercase hexadecimal digits.\<close>

lemma generateHash_lowercase_hex:
  "generateHash P formData = Inr h \<Longrightarrow> set h \<subseteq> set ''0123456789abcdef''"
proof -
  assume "generateHash P formData = Inr h"
  then obtain bs where "h = to_hex bs"
    by (auto simp: generateHash_def generateHash_try_def split: sum.splits option.splits)
  then show ?thesis by (simp only: to_hex_lower)
qed

text \<open>
  C10. \<open>generateQuickHash\<close> returns a string on every input and with every platform: when
  the body of its \<open>try\<close> block throws, the result is the empty string. When the body of the
  \<open>try\<close> block of \<open>generateHash\<close> throws, \<open>generateHash\<close> throws
  \<open>Error('Failed to generate form hash')\<close>.
\<close>

theorem generateQuickHash_never_throws:
  "(\<exists>s. generateQuickHash P formData = Inr s)
   \<and> (\<forall>e. generateQuickHash_try P formData = Inl e \<longrightarrow> generateQuickHash P formData = Inr [])
   \<and> (\<forall>e. generateHash_try P formData = Inl e \<longrightarrow>
         generateHash P formData = Inl (Error ''Failed to generate form hash''))"
  by (auto simp: generateQuickHash_def generateHash_def split: sum.splits)

theorem generateQuickHash_never_throws_witness:
  "generateQuickHash_try rejecting_browser (Some result_12) = Inl DigestFailure
   \<and> generateQuickHash rejecting_browser (Some result_12) = Inr []
   \<and> generateHash_try rejecting_browser (Some result_12) = Inl DigestFailure
   \<and> generateHash rejecting_browser (Some result_12) = Inl (Error ''Failed to generate form hash'')
   \<and> generateQuickHash browser None = Inr []
   \<and> generateHash browser None = Inl (Error ''Failed to generate form hash'')"
  using generateQuickHash_never_throws [of rejecting_browser "Some result_12"]
    generateQuickHash_never_throws [of browser None]
  by (simp add: generateQuickHash_try_def generateHash_try_def rejecting_browser_def)


section \<open>Expression normalisation\<close>










end
